theory Spec2Isabelle
  imports Main "HOL-Library.Sublist"
begin

section \<open>Python values\<close>

text \<open>
  A Python \<open>str\<close> is a sequence of Unicode code points; \<open>len\<close>, slicing and
  \<open>encode('latin-1')\<close> all count code points, so a string is modelled as the list of its
  code points. \<open>lit\<close> turns an ASCII literal of the source into that representation.
  The newline is code point 10.
\<close>

type_synonym pystr = "nat list"

definition lit :: "string \<Rightarrow> pystr" where
  "lit cs = map of_char cs"

text \<open>
  Exceptions as values. \<open>Exception m\<close> is any instance of \<open>Exception\<close> raised by one of
  the libraries (network failure, no transcript found, parse failure, ...), with \<open>m\<close> its
  \<open>str(e)\<close>. \<open>IndexError\<close> is raised by \<open>choices[0]\<close> on an empty list and
  \<open>UnicodeEncodeError i\<close> by \<open>encode('latin-1')\<close>, \<open>i\<close> being the position of the first
  character that cannot be encoded. Process-level signals (\<open>KeyboardInterrupt\<close>,
  \<open>SystemExit\<close>), which are not instances of \<open>Exception\<close>, are outside the model.
\<close>

datatype exn = Exception pystr | IndexError | UnicodeEncodeError nat

subsection \<open>String operations of the source\<close>

text \<open>\<open>sub in s\<close> on strings: \<open>sub\<close> starts at some position of \<open>s\<close>.\<close>

fun py_in :: "pystr \<Rightarrow> pystr \<Rightarrow> bool" where
  "py_in sub [] = (sub = [])"
| "py_in sub (c # cs) = (prefix sub (c # cs) \<or> py_in sub cs)"

text \<open>\<open>sep.join(xs)\<close>.\<close>

fun py_join :: "pystr \<Rightarrow> pystr list \<Rightarrow> pystr" where
  "py_join sep [] = []"
| "py_join sep [x] = x"
| "py_join sep (x # y # ys) = x @ sep @ py_join sep (y # ys)"

text \<open>
  \<open>s.split(sep)\<close> for a separator of one character: a new piece starts after every
  occurrence of the separator, so the empty string gives one empty piece.
\<close>

fun py_split :: "nat \<Rightarrow> pystr \<Rightarrow> pystr list" where
  "py_split sep [] = [[]]"
| "py_split sep (c # cs) =
     (if c = sep then [] # py_split sep cs
      else (case py_split sep cs of
              [] \<Rightarrow> [[c]]
            | l # ls \<Rightarrow> (c # l) # ls))"

text \<open>
  \<open>s.strip()\<close> removes the leading and trailing characters for which \<open>str.isspace\<close>
  holds: the Unicode whitespace code points.
\<close>

definition py_isspace :: "nat \<Rightarrow> bool" where
  "py_isspace c =
     ((9 \<le> c \<and> c \<le> 13) \<or> (28 \<le> c \<and> c \<le> 32) \<or> c = 133 \<or> c = 160 \<or> c = 5760 \<or>
      (8192 \<le> c \<and> c \<le> 8202) \<or> c = 8232 \<or> c = 8233 \<or> c = 8239 \<or> c = 8287 \<or>
      c = 12288)"

definition py_strip :: "pystr \<Rightarrow> pystr" where
  "py_strip s = rev (dropWhile py_isspace (rev (dropWhile py_isspace s)))"


section \<open>The libraries the program calls\<close>

text \<open>
  Objects handed out by the libraries are opaque handles; a fetched HTTP response has its
  decoded \<open>.text\<close> and its raw \<open>.content\<close>; an element of the parsed page has its
  attributes, in the order of the markup.
\<close>

datatype transcript_list = TranscriptListObj nat

datatype transcript = TranscriptObj nat

datatype image = ImageObj nat

record response =
  resp_text :: pystr
  resp_content :: "nat list"

datatype tag = Tag (attrs: "(pystr \<times> pystr) list")

text \<open>\<open>tag.get(key)\<close>: the attribute's value, \<open>None\<close> when the element has no such attribute.\<close>

definition tag_get :: "tag \<Rightarrow> pystr \<Rightarrow> pystr option" where
  "tag_get t key = map_of (attrs t) key"

text \<open>
  The request of \<open>client.chat.completions.create\<close>; the temperature is the decimal
  literal of the source, as mantissa and exponent (\<open>0.3\<close> is \<open>(3, -1)\<close>). The response
  is reduced to what the program reads of it: the message content of each choice.
\<close>

record chat_message =
  msg_role :: pystr
  msg_content :: pystr

record chat_request =
  req_model :: pystr
  req_messages :: "chat_message list"
  req_temperature :: "int \<times> int"

record chat_response =
  choices :: "pystr list"

text \<open>
  The \<open>FPDF\<close> object, as far as the program drives it: the pages added, the font set and
  the cells written, in order. \<open>pdf.cell(w, h, txt=.., ln=..)\<close> appends one cell.
\<close>

record pdf_cell =
  cell_w :: nat
  cell_h :: nat
  cell_txt :: pystr
  cell_ln :: bool

record fpdf =
  pdf_pages :: nat
  pdf_font :: "(pystr \<times> nat) option"
  pdf_cells :: "pdf_cell list"

definition FPDF :: fpdf where
  "FPDF = \<lparr>pdf_pages = 0, pdf_font = None, pdf_cells = []\<rparr>"

definition add_page :: "fpdf \<Rightarrow> fpdf" where
  "add_page pdf = pdf\<lparr>pdf_pages := pdf_pages pdf + 1\<rparr>"

definition set_font :: "fpdf \<Rightarrow> pystr \<Rightarrow> nat \<Rightarrow> fpdf" where
  "set_font pdf family sz = pdf\<lparr>pdf_font := Some (family, sz)\<rparr>"

definition cell :: "fpdf \<Rightarrow> nat \<Rightarrow> nat \<Rightarrow> pystr \<Rightarrow> bool \<Rightarrow> fpdf" where
  "cell pdf w h txt ln =
     pdf\<lparr>pdf_cells := pdf_cells pdf @ [\<lparr>cell_w = w, cell_h = h, cell_txt = txt, cell_ln = ln\<rparr>]\<rparr>"

text \<open>
  The environment of one run: what each library call answers. A call that can fail
  answers \<open>Inl e\<close> for the exception it raises.
  \<^item> \<open>yt_list\<close>: \<open>YouTubeTranscriptApi().list(video_id)\<close>;
  \<^item> \<open>find_manually_created_transcript\<close>, \<open>find_generated_transcript\<close>: the two lookups
    of the transcript list, with the language codes in order of preference;
  \<^item> \<open>transcript_fetch\<close>: \<open>transcript.fetch()\<close>, reduced to the snippets' texts in order;
  \<^item> \<open>article_download_parse\<close>: \<open>Article(url)\<close>, \<open>download()\<close>, \<open>parse()\<close> and \<open>.text\<close>;
  \<^item> \<open>requests_get\<close>: \<open>requests.get(url)\<close>;
  \<^item> \<open>soup_find_all_img\<close>: \<open>BeautifulSoup(html, "html.parser").find_all("img")\<close>, the
    \<open>img\<close> elements in document order;
  \<^item> \<open>urljoin\<close>: \<open>urllib.parse.urljoin(base, ref)\<close>;
  \<^item> \<open>image_open\<close>: \<open>Image.open(BytesIO(data))\<close>;
  \<^item> \<open>image_to_string\<close>: \<open>pytesseract.image_to_string(img)\<close>;
  \<^item> \<open>chat_completions_create\<close>: \<open>client.chat.completions.create(...)\<close>;
  \<^item> \<open>fpdf_output\<close>: \<open>pdf.output(dest='S')\<close>, the rendered document as a \<open>str\<close>.
\<close>

record env =
  yt_list :: "pystr \<Rightarrow> exn + transcript_list"
  find_manually_created_transcript :: "transcript_list \<Rightarrow> pystr list \<Rightarrow> exn + transcript"
  find_generated_transcript :: "transcript_list \<Rightarrow> pystr list \<Rightarrow> exn + transcript"
  transcript_fetch :: "transcript \<Rightarrow> exn + pystr list"
  article_download_parse :: "pystr \<Rightarrow> exn + pystr"
  requests_get :: "pystr \<Rightarrow> exn + response"
  soup_find_all_img :: "pystr \<Rightarrow> tag list"
  urljoin :: "pystr \<Rightarrow> pystr \<Rightarrow> pystr"
  image_open :: "nat list \<Rightarrow> exn + image"
  image_to_string :: "image \<Rightarrow> exn + pystr"
  chat_completions_create :: "chat_request \<Rightarrow> exn + chat_response"
  fpdf_output :: "fpdf \<Rightarrow> exn + pystr"

section \<open>Effects\<close>

text \<open>
  A function of the program that talks to the outside returns the log of what it did
  there, in order, and either the exception it raised or its value. \<open>StError p e\<close> is
  \<open>st.error(f"p{e}")\<close>: the literal part of the message and the exception put into it.
\<close>

datatype event =
    TranscriptList pystr
  | FindManuallyCreated "pystr list"
  | FindGenerated "pystr list"
  | TranscriptFetch transcript
  | ArticleDownloadParse pystr
  | RequestsGet pystr
  | ImageOpen
  | ImageToString
  | ChatCompletionsCreate chat_request
  | StError pystr exn

type_synonym 'a io = "event list \<times> (exn + 'a)"

definition io_return :: "'a \<Rightarrow> 'a io" where
  "io_return x = ([], Inr x)"

definition io_call :: "event \<Rightarrow> exn + 'a \<Rightarrow> 'a io" where
  "io_call ev r = ([ev], r)"

text \<open>Sequencing: an exception of the first part skips the rest.\<close>

definition io_bind :: "'a io \<Rightarrow> ('a \<Rightarrow> 'b io) \<Rightarrow> 'b io" where
  "io_bind m f =
     (case m of
        (l, Inl e) \<Rightarrow> (l, Inl e)
      | (l, Inr x) \<Rightarrow> (case f x of (l', r) \<Rightarrow> (l @ l', r)))"

text \<open>\<open>try: m except [Exception as e]: h e\<close>.\<close>

definition io_try :: "'a io \<Rightarrow> (exn \<Rightarrow> 'a io) \<Rightarrow> 'a io" where
  "io_try m h =
     (case m of
        (l, Inl e) \<Rightarrow> (case h e of (l', r) \<Rightarrow> (l @ l', r))
      | (l, Inr x) \<Rightarrow> (l, Inr x))"

section \<open>The program\<close>

definition SYSTEM_PROMPT :: pystr where
  "SYSTEM_PROMPT =
     [10] @ lit ''You are an expert AI Notes Generator.'' @ [10, 10] @
     lit ''Summarize the given content into important structured bullet points.'' @ [10] @
     lit ''Cover all key concepts properly.'' @ [10] @
     lit ''Limit the summary to 250'' @ [8211] @ lit ''300 words.'' @ [10]"

subsection \<open>\<open>get_video_id\<close>\<close>

text \<open>
  The pattern is \<open>(?:v=|\/)([0-9A-Za-z_-]{11})\<close>. \<open>id_char\<close> is its character class,
  \<open>match_group\<close> the group (eleven characters of the class), \<open>pattern_match\<close> the
  pattern anchored at the start of a string (the alternatives in order, the second tried
  when the first does not lead to a match), and \<open>re_search\<close> is \<open>re.search\<close>: the match
  at the leftmost position that has one, \<open>None\<close> when no position has.
\<close>

definition id_char :: "nat \<Rightarrow> bool" where
  "id_char c =
     ((48 \<le> c \<and> c \<le> 57) \<or> (65 \<le> c \<and> c \<le> 90) \<or> (97 \<le> c \<and> c \<le> 122) \<or> c = 95 \<or> c = 45)"

definition match_group :: "pystr \<Rightarrow> pystr option" where
  "match_group s =
     (if 11 \<le> length s \<and> list_all id_char (take 11 s) then Some (take 11 s) else None)"

definition pattern_match :: "pystr \<Rightarrow> pystr option" where
  "pattern_match s =
     (case (if prefix (lit ''v='') s then match_group (drop 2 s) else None) of
        Some g \<Rightarrow> Some g
      | None \<Rightarrow> (if prefix (lit ''/'') s then match_group (drop 1 s) else None))"

fun re_search :: "pystr \<Rightarrow> pystr option" where
  "re_search [] = pattern_match []"
| "re_search (c # cs) =
     (case pattern_match (c # cs) of
        Some g \<Rightarrow> Some g
      | None \<Rightarrow> re_search cs)"

definition get_video_id :: "pystr \<Rightarrow> pystr option" where
  "get_video_id url = re_search url"

text \<open>
  What the specification speaks of: at position \<open>i\<close> of \<open>url\<close> stands the marker \<open>v=\<close>
  or a \<open>/\<close>, and right after it the eleven characters \<open>ident\<close> of the class.
\<close>

definition id_at :: "pystr \<Rightarrow> nat \<Rightarrow> pystr \<Rightarrow> bool" where
  "id_at url i ident =
     (length ident = 11 \<and> list_all id_char ident \<and>
      (prefix (lit ''v='' @ ident) (drop i url) \<or> prefix (lit ''/'' @ ident) (drop i url)))"

subsection \<open>\<open>extract_youtube_transcript\<close>\<close>

text \<open>
  The body of the outer \<open>try\<close>. \<open>if not video_id\<close> holds for \<open>None\<close> and for the empty
  string. The inner \<open>try\<close> covers the lookup of a manually created transcript only, and
  its bare \<open>except\<close> runs the lookup of a generated one.
\<close>

definition transcript_body :: "env \<Rightarrow> pystr \<Rightarrow> pystr option io" where
  "transcript_body env url =
     (case get_video_id url of
        None \<Rightarrow> io_return None
      | Some video_id \<Rightarrow>
          if video_id = [] then io_return None
          else
            io_bind (io_call (TranscriptList video_id) (yt_list env video_id)) (\<lambda>transcript_list.
            io_bind
              (io_try
                 (io_call (FindManuallyCreated [lit ''en'', lit ''hi''])
                    (find_manually_created_transcript env transcript_list [lit ''en'', lit ''hi'']))
                 (\<lambda>_. io_call (FindGenerated [lit ''en'', lit ''hi''])
                    (find_generated_transcript env transcript_list [lit ''en'', lit ''hi'']))) (\<lambda>transcript.
            io_bind (io_call (TranscriptFetch transcript) (transcript_fetch env transcript)) (\<lambda>fetched.
            io_return (Some (py_join (lit '' '') fetched))))))"

definition transcript_error_prefix :: pystr where
  "transcript_error_prefix = [10060] @ lit '' Transcript Error: ''"

definition extract_youtube_transcript :: "env \<Rightarrow> pystr \<Rightarrow> pystr option io" where
  "extract_youtube_transcript env url =
     io_try (transcript_body env url)
       (\<lambda>e. io_bind (io_call (StError transcript_error_prefix e) (Inr ())) (\<lambda>_. io_return None))"

subsection \<open>The article path\<close>

definition extract_article_text :: "env \<Rightarrow> pystr \<Rightarrow> pystr io" where
  "extract_article_text env url = io_call (ArticleDownloadParse url) (article_download_parse env url)"

text \<open>
  The loop of \<open>extract_image_urls\<close>: \<open>if src\<close> holds for a string that is not empty, so an
  element with no \<open>src\<close> or an empty one appends nothing.
\<close>

fun collect_img_urls :: "env \<Rightarrow> pystr \<Rightarrow> tag list \<Rightarrow> pystr list \<Rightarrow> pystr list" where
  "collect_img_urls env url [] img_urls = img_urls"
| "collect_img_urls env url (img # imgs) img_urls =
     (case tag_get img (lit ''src'') of
        None \<Rightarrow> collect_img_urls env url imgs img_urls
      | Some src \<Rightarrow>
          if src \<noteq> [] then collect_img_urls env url imgs (img_urls @ [urljoin env url src])
          else collect_img_urls env url imgs img_urls)"

definition extract_image_urls :: "env \<Rightarrow> pystr \<Rightarrow> pystr list io" where
  "extract_image_urls env url =
     io_bind (io_call (RequestsGet url) (requests_get env url)) (\<lambda>resp.
     io_return (take 3 (collect_img_urls env url (soup_find_all_img env (resp_text resp)) [])))"

text \<open>The body of the \<open>try\<close> of \<open>ocr_from_image_url\<close>, and the function with its bare \<open>except\<close>.\<close>

definition ocr_body :: "env \<Rightarrow> pystr \<Rightarrow> pystr io" where
  "ocr_body env img_url =
     io_bind (io_call (RequestsGet img_url) (requests_get env img_url)) (\<lambda>resp.
     io_bind (io_call ImageOpen (image_open env (resp_content resp))) (\<lambda>img.
     io_bind (io_call ImageToString (image_to_string env img)) (\<lambda>txt.
     io_return (py_strip txt))))"

definition ocr_from_image_url :: "env \<Rightarrow> pystr \<Rightarrow> pystr io" where
  "ocr_from_image_url env img_url = io_try (ocr_body env img_url) (\<lambda>_. io_return [])"

text \<open>The loop of \<open>extract_article_with_images\<close>, \<open>ocr_text\<close> being its accumulator.\<close>

fun ocr_loop :: "env \<Rightarrow> pystr list \<Rightarrow> pystr \<Rightarrow> pystr io" where
  "ocr_loop env [] ocr_text = io_return ocr_text"
| "ocr_loop env (img_url # rest) ocr_text =
     io_bind (ocr_from_image_url env img_url) (\<lambda>t. ocr_loop env rest (ocr_text @ [10] @ t))"

definition images_header :: pystr where
  "images_header = [10, 10] @ lit ''Important Text from Images:'' @ [10]"

definition extract_article_with_images :: "env \<Rightarrow> pystr \<Rightarrow> pystr io" where
  "extract_article_with_images env url =
     io_bind (extract_article_text env url) (\<lambda>txt.
     io_bind (extract_image_urls env url) (\<lambda>image_urls.
     io_bind (ocr_loop env image_urls []) (\<lambda>ocr_text.
     io_return (txt @ images_header @ ocr_text))))"

subsection \<open>\<open>summarize_with_groq\<close>\<close>

definition groq_request :: "pystr \<Rightarrow> chat_request" where
  "groq_request content =
     \<lparr>req_model = lit ''llama-3.1-8b-instant'',
      req_messages =
        [\<lparr>msg_role = lit ''system'', msg_content = SYSTEM_PROMPT\<rparr>,
         \<lparr>msg_role = lit ''user'',
          msg_content = lit ''Generate notes in bullet points:'' @ [10] @ take 7000 content\<rparr>],
      req_temperature = (3, -1)\<rparr>"

definition summarize_with_groq :: "env \<Rightarrow> pystr \<Rightarrow> pystr io" where
  "summarize_with_groq env content =
     io_bind (io_call (ChatCompletionsCreate (groq_request content))
                (chat_completions_create env (groq_request content))) (\<lambda>response.
     (case choices response of
        [] \<Rightarrow> ([], Inl IndexError)
      | c # _ \<Rightarrow> io_return c))"

subsection \<open>\<open>route_input\<close> and \<open>agent_pipeline\<close>\<close>

definition route_input :: "pystr \<Rightarrow> pystr" where
  "route_input url =
     (if py_in (lit ''youtube.com'') url \<or> py_in (lit ''youtu.be'') url then lit ''youtube''
      else lit ''article'')"

text \<open>
  \<open>content\<close> is \<open>None\<close> or a string; \<open>if not content\<close> holds for \<open>None\<close> and for the empty
  string.
\<close>

definition agent_pipeline :: "env \<Rightarrow> pystr \<Rightarrow> pystr option io" where
  "agent_pipeline env url =
     io_bind
       (if route_input url = lit ''youtube'' then extract_youtube_transcript env url
        else io_bind (extract_article_with_images env url) (\<lambda>c. io_return (Some c))) (\<lambda>content.
     (case content of
        None \<Rightarrow> io_return None
      | Some c \<Rightarrow>
          if c = [] then io_return None
          else io_bind (summarize_with_groq env c) (\<lambda>summary. io_return (Some summary))))"

subsection \<open>\<open>create_pdf\<close>\<close>

text \<open>
  \<open>create_pdf_document\<close> is the \<open>FPDF\<close> object when the loop over the lines is done;
  \<open>create_pdf\<close> renders it and encodes the result.
\<close>

definition create_pdf_document :: "pystr \<Rightarrow> fpdf" where
  "create_pdf_document summary =
     foldl (\<lambda>pdf line. cell pdf 200 10 line True)
       (set_font (add_page FPDF) (lit ''Arial'') 12)
       (py_split 10 summary)"


section \<open>Environments of the examples\<close>

text \<open>
  Concrete environments on which the program is run in the examples below.
  In \<open>env_offline\<close> every call that can fail does; the renderer writes the text of every
  cell, each followed by a newline.
\<close>

definition env_offline :: env where
  "env_offline =
     \<lparr>yt_list = (\<lambda>_. Inl (Exception (lit ''offline''))),
      find_manually_created_transcript = (\<lambda>_ _. Inl (Exception (lit ''offline''))),
      find_generated_transcript = (\<lambda>_ _. Inl (Exception (lit ''offline''))),
      transcript_fetch = (\<lambda>_. Inl (Exception (lit ''offline''))),
      article_download_parse = (\<lambda>_. Inl (Exception (lit ''offline''))),
      requests_get = (\<lambda>_. Inl (Exception (lit ''offline''))),
      soup_find_all_img = (\<lambda>_. []),
      urljoin = (\<lambda>base ref. lit ''https://example.com/'' @ ref),
      image_open = (\<lambda>_. Inl (Exception (lit ''offline''))),
      image_to_string = (\<lambda>_. Inl (Exception (lit ''offline''))),
      chat_completions_create = (\<lambda>_. Inl (Exception (lit ''offline''))),
      fpdf_output = (\<lambda>pdf. Inr (concat (map (\<lambda>c. cell_txt c @ [10]) (pdf_cells pdf))))\<rparr>"

text \<open>
  A video with no manually created transcript and a generated one of two snippets, and a
  completion service that answers one choice.
\<close>

definition env_video :: env where
  "env_video =
     env_offline
       \<lparr>yt_list := (\<lambda>_. Inr (TranscriptListObj 0)),
        find_manually_created_transcript := (\<lambda>_ _. Inl (Exception (lit ''NoTranscriptFound''))),
        find_generated_transcript := (\<lambda>_ _. Inr (TranscriptObj 1)),
        transcript_fetch := (\<lambda>_. Inr [lit ''Hello'', lit ''world'']),
        chat_completions_create := (\<lambda>_. Inr \<lparr>choices = [lit ''- notes'']\<rparr>)\<rparr>"

text \<open>The same video when the generated transcript has no snippet at all.\<close>

definition env_video_silent :: env where
  "env_video_silent = env_video\<lparr>transcript_fetch := (\<lambda>_. Inr [])\<rparr>"

text \<open>
  An article page with six \<open>img\<close> elements, one without \<open>src\<close> and one with an empty
  \<open>src\<close>. Every download answers the requested URL as its bytes; the first image cannot be
  decoded, the others carry the text \<open>Hi\<close> between whitespace.
\<close>

definition env_article :: env where
  "env_article =
     env_offline
       \<lparr>article_download_parse := (\<lambda>_. Inr (lit ''Body'')),
        requests_get := (\<lambda>u. Inr \<lparr>resp_text = lit ''<html>'', resp_content = u\<rparr>),
        soup_find_all_img :=
          (\<lambda>_. [Tag [(lit ''src'', lit ''a.png'')],
                 Tag [(lit ''alt'', lit ''logo'')],
                 Tag [(lit ''src'', [])],
                 Tag [(lit ''alt'', lit ''b''), (lit ''src'', lit ''img/b.png'')],
                 Tag [(lit ''src'', lit ''c.png'')],
                 Tag [(lit ''src'', lit ''d.png'')]]),
        image_open :=
          (\<lambda>data. if data = lit ''https://example.com/a.png''
                   then Inl (Exception (lit ''cannot identify image file''))
                   else Inr (ImageObj (length data))),
        image_to_string := (\<lambda>_. Inr ([32] @ lit ''Hi'' @ [10])),
        chat_completions_create := (\<lambda>_. Inr \<lparr>choices = [lit ''- notes'']\<rparr>)\<rparr>"

text \<open>
  An article page that can be fetched and has neither text nor images, and one whose
  article text is extracted while the download of the page for its images fails.
\<close>

definition env_empty_article :: env where
  "env_empty_article =
     env_article
       \<lparr>article_download_parse := (\<lambda>_. Inr []),
        soup_find_all_img := (\<lambda>_. [])\<rparr>"


section \<open>Auxiliary facts\<close>

subsection \<open>Effects\<close>

lemma snd_io_bind:
  "snd (io_bind m f) = (case snd m of Inl e \<Rightarrow> Inl e | Inr x \<Rightarrow> snd (f x))"
  by (simp add: io_bind_def split: prod.splits sum.splits)

lemma snd_io_try:
  "snd (io_try m h) = (case snd m of Inl e \<Rightarrow> snd (h e) | Inr x \<Rightarrow> Inr x)"
  by (simp add: io_try_def split: prod.splits sum.splits)

lemma snd_io_call: "snd (io_call ev r) = r"
  by (simp add: io_call_def)

lemma snd_io_return: "snd (io_return x) = Inr x"
  by (simp add: io_return_def)

subsection \<open>Substrings and the identifier pattern\<close>

lemma py_in_sublist: "py_in sub s = sublist sub s"
  by (induction s) (auto simp: sublist_Cons_right)

lemma prefix_append_drop:
  "prefix (a @ g) s \<longleftrightarrow> prefix a s \<and> prefix g (drop (length a) s)"
  by (auto simp: prefix_def)

lemma prefix_v_marker:
  "prefix (lit ''v='' @ g) s \<longleftrightarrow> prefix (lit ''v='') s \<and> prefix g (drop 2 s)"
proof -
  have "length (lit ''v='') = 2" by (simp add: lit_def)
  then show ?thesis using prefix_append_drop [of "lit ''v=''" g s] by simp
qed

lemma prefix_slash_marker:
  "prefix (lit ''/'' @ g) s \<longleftrightarrow> prefix (lit ''/'') s \<and> prefix g (drop 1 s)"
proof -
  have "length (lit ''/'') = 1" by (simp add: lit_def)
  then show ?thesis using prefix_append_drop [of "lit ''/''" g s] by simp
qed

lemma markers_exclusive: "prefix (lit ''v='') s \<Longrightarrow> \<not> prefix (lit ''/'') s"
  by (auto simp: lit_def prefix_def)

lemma match_group_Some:
  "match_group s = Some g \<longleftrightarrow> length g = 11 \<and> list_all id_char g \<and> prefix g s"
proof
  assume "match_group s = Some g"
  then have "11 \<le> length s" "list_all id_char (take 11 s)" "g = take 11 s"
    by (auto simp: match_group_def split: if_splits)
  then show "length g = 11 \<and> list_all id_char g \<and> prefix g s"
    by (simp add: take_is_prefix)
next
  assume a: "length g = 11 \<and> list_all id_char g \<and> prefix g s"
  then obtain r where "s = g @ r" by (auto simp: prefix_def)
  with a show "match_group s = Some g"
    by (simp add: match_group_def)
qed

lemma id_at_0:
  "id_at s 0 g \<longleftrightarrow>
     (prefix (lit ''v='') s \<and> match_group (drop 2 s) = Some g) \<or>
     (prefix (lit ''/'') s \<and> match_group (drop 1 s) = Some g)"
  by (auto simp: id_at_def prefix_v_marker prefix_slash_marker match_group_Some)

lemma pattern_match_Some: "pattern_match s = Some g \<longleftrightarrow> id_at s 0 g"
  unfolding id_at_0 pattern_match_def
  using markers_exclusive [of s]
  by (auto split: option.splits)

lemma pattern_match_None: "pattern_match s = None \<longleftrightarrow> (\<forall>g. \<not> id_at s 0 g)"
  using pattern_match_Some [of s] by (cases "pattern_match s") auto

lemma id_at_Cons_Suc: "id_at (c # cs) (Suc i) g = id_at cs i g"
  by (simp add: id_at_def)

lemma id_at_Nil: "\<not> id_at [] i g"
  by (auto simp: id_at_def lit_def)

lemma re_search_None: "re_search s = None \<longleftrightarrow> (\<forall>i g. \<not> id_at s i g)"
proof (induction s)
  case Nil
  then show ?case by (simp add: pattern_match_None id_at_Nil)
next
  case (Cons c cs)
  show ?case
  proof (cases "pattern_match (c # cs)")
    case None
    then have n0: "\<forall>g. \<not> id_at (c # cs) 0 g" by (simp add: pattern_match_None)
    have "(\<forall>i g. \<not> id_at (c # cs) i g) \<longleftrightarrow> (\<forall>i g. \<not> id_at cs i g)"
    proof
      assume "\<forall>i g. \<not> id_at (c # cs) i g"
      then have "\<forall>i g. \<not> id_at (c # cs) (Suc i) g" by blast
      then show "\<forall>i g. \<not> id_at cs i g" by (simp add: id_at_Cons_Suc)
    next
      assume a: "\<forall>i g. \<not> id_at cs i g"
      show "\<forall>i g. \<not> id_at (c # cs) i g"
      proof (intro allI)
        fix i g show "\<not> id_at (c # cs) i g"
          using n0 a by (cases i) (simp_all add: id_at_Cons_Suc)
      qed
    qed
    with None Cons show ?thesis by simp
  next
    case (Some g)
    then have "id_at (c # cs) 0 g" by (simp add: pattern_match_Some)
    with Some show ?thesis by auto
  qed
qed

lemma re_search_Some:
  "re_search s = Some g \<longleftrightarrow> (\<exists>i. id_at s i g \<and> (\<forall>j<i. \<forall>x. \<not> id_at s j x))"
proof (induction s)
  case Nil
  then show ?case by (simp add: pattern_match_Some id_at_Nil)
next
  case (Cons c cs)
  show ?case
  proof (cases "pattern_match (c # cs)")
    case None
    then have n0: "\<forall>x. \<not> id_at (c # cs) 0 x" by (simp add: pattern_match_None)
    have "(\<exists>i. id_at (c # cs) i g \<and> (\<forall>j<i. \<forall>x. \<not> id_at (c # cs) j x)) \<longleftrightarrow>
          (\<exists>i. id_at cs i g \<and> (\<forall>j<i. \<forall>x. \<not> id_at cs j x))" (is "?L \<longleftrightarrow> ?R")
    proof
      assume ?L
      then obtain i where i: "id_at (c # cs) i g" "\<forall>j<i. \<forall>x. \<not> id_at (c # cs) j x" by blast
      from i(1) n0 obtain k where k: "i = Suc k" by (cases i) auto
      have "\<forall>j<k. \<forall>x. \<not> id_at cs j x"
      proof (intro allI impI)
        fix j x assume "j < k"
        then have "Suc j < i" using k by simp
        with i(2) have "\<not> id_at (c # cs) (Suc j) x" by blast
        then show "\<not> id_at cs j x" by (simp add: id_at_Cons_Suc)
      qed
      with i(1) k show ?R by (auto simp: id_at_Cons_Suc)
    next
      assume ?R
      then obtain i where i: "id_at cs i g" "\<forall>j<i. \<forall>x. \<not> id_at cs j x" by blast
      have "\<forall>j<Suc i. \<forall>x. \<not> id_at (c # cs) j x"
      proof (intro allI impI)
        fix j x assume "j < Suc i"
        then show "\<not> id_at (c # cs) j x"
          using n0 i(2) by (cases j) (simp_all add: id_at_Cons_Suc)
      qed
      with i(1) show ?L
        by (intro exI [of _ "Suc i"]) (simp add: id_at_Cons_Suc)
    qed
    with None Cons show ?thesis by simp
  next
    case (Some h)
    then have h: "id_at (c # cs) 0 h" by (simp add: pattern_match_Some)
    have "(\<exists>i. id_at (c # cs) i g \<and> (\<forall>j<i. \<forall>x. \<not> id_at (c # cs) j x)) \<longleftrightarrow> h = g"
      (is "?L \<longleftrightarrow> _")
    proof
      assume ?L
      then obtain i where i: "id_at (c # cs) i g" "\<forall>j<i. \<forall>x. \<not> id_at (c # cs) j x" by blast
      from i(2) h have "i = 0" by (cases i) auto
      with i(1) have "pattern_match (c # cs) = Some g" by (simp add: pattern_match_Some)
      with Some show "h = g" by simp
    next
      assume "h = g"
      with h show ?L by (intro exI [of _ 0]) simp
    qed
    with Some show ?thesis by simp
  qed
qed

lemma get_video_id_length: "get_video_id url = Some video_id \<Longrightarrow> length video_id = 11"
  by (auto simp: get_video_id_def re_search_Some id_at_def)

subsection \<open>Stripping, splitting and joining\<close>

lemma py_strip_blank: "list_all py_isspace s \<Longrightarrow> py_strip s = []"
  by (auto simp: py_strip_def list_all_iff dest: set_dropWhileD)

lemma dropWhile_strip:
  "dropWhile py_isspace s =
     py_strip s @ rev (takeWhile py_isspace (rev (dropWhile py_isspace s)))"
proof -
  let ?m = "dropWhile py_isspace s"
  have "py_strip s @ rev (takeWhile py_isspace (rev ?m)) =
        rev (takeWhile py_isspace (rev ?m) @ dropWhile py_isspace (rev ?m))"
    by (simp only: py_strip_def rev_append)
  also have "\<dots> = rev (rev ?m)" by (simp only: takeWhile_dropWhile_id)
  also have "\<dots> = ?m" by simp
  finally show ?thesis by simp
qed

lemma py_strip_decomp:
  "\<exists>a b. s = a @ py_strip s @ b \<and> list_all py_isspace a \<and> list_all py_isspace b"
proof -
  let ?a = "takeWhile py_isspace s"
  let ?b = "rev (takeWhile py_isspace (rev (dropWhile py_isspace s)))"
  have "s = ?a @ dropWhile py_isspace s" by simp
  then have "s = ?a @ py_strip s @ ?b" using dropWhile_strip [of s] by simp
  moreover have "list_all py_isspace ?a" by (auto simp: list_all_iff dest: set_takeWhileD)
  moreover have "list_all py_isspace ?b" by (auto simp: list_all_iff dest: set_takeWhileD)
  ultimately show ?thesis by blast
qed

lemma py_strip_ends:
  assumes "py_strip s \<noteq> []"
  shows "\<not> py_isspace (hd (py_strip s)) \<and> \<not> py_isspace (last (py_strip s))"
proof -
  let ?m = "dropWhile py_isspace s"
  let ?r = "dropWhile py_isspace (rev ?m)"
  have r: "?r \<noteq> []" using assms by (simp add: py_strip_def)
  then have "\<not> py_isspace (hd ?r)" by (rule hd_dropWhile)
  moreover have "last (py_strip s) = hd ?r" using r by (simp add: py_strip_def last_rev)
  moreover have "?m \<noteq> []" using r by (cases "?m") simp_all
  then have "\<not> py_isspace (hd ?m)" by (rule hd_dropWhile)
  moreover have "hd ?m = hd (py_strip s)"
    using dropWhile_strip [of s] assms by (metis hd_append2)
  ultimately show ?thesis by simp
qed

lemma py_split_not_Nil: "py_split sep s \<noteq> []"
  by (induction s) (auto split: list.splits)









lemma length_py_split: "length (py_split sep s) = count_list s sep + 1"
proof (induction s)
  case Nil
  then show ?case by simp
next
  case (Cons c cs)
  then show ?case using py_split_not_Nil [of sep cs]
    by (cases "py_split sep cs") auto
qed

lemma py_split_snoc_sep: "py_split sep (s @ [sep]) = py_split sep s @ [[]]"
proof (induction s)
  case Nil
  then show ?case by simp
next
  case (Cons c cs)
  then show ?case using py_split_not_Nil [of sep cs]
    by (cases "py_split sep cs") auto
qed



subsection \<open>The article path\<close>

lemma snd_ocr_body:
  "snd (ocr_body env u) =
     (case requests_get env u of
        Inl e \<Rightarrow> Inl e
      | Inr resp \<Rightarrow>
          (case image_open env (resp_content resp) of
             Inl e \<Rightarrow> Inl e
           | Inr img \<Rightarrow>
               (case image_to_string env img of
                  Inl e \<Rightarrow> Inl e
                | Inr s \<Rightarrow> Inr (py_strip s))))"
  by (simp add: ocr_body_def snd_io_bind snd_io_call snd_io_return split: sum.splits)

lemma snd_ocr:
  "snd (ocr_from_image_url env u) =
     Inr (case requests_get env u of
        Inl e \<Rightarrow> []
      | Inr resp \<Rightarrow>
          (case image_open env (resp_content resp) of
             Inl e \<Rightarrow> []
           | Inr img \<Rightarrow>
               (case image_to_string env img of
                  Inl e \<Rightarrow> []
                | Inr s \<Rightarrow> py_strip s)))"
  by (simp add: ocr_from_image_url_def snd_io_try snd_ocr_body snd_io_return split: sum.splits)




subsection \<open>The document of \<open>create_pdf\<close>\<close>

lemma pdf_cells_foldl:
  "pdf_cells (foldl (\<lambda>pdf line. cell pdf w h line ln) pdf ls) =
     pdf_cells pdf @ map (\<lambda>line. \<lparr>cell_w = w, cell_h = h, cell_txt = line, cell_ln = ln\<rparr>) ls"
  by (induction ls arbitrary: pdf) (simp_all add: cell_def)

lemma pdf_cells_create:
  "pdf_cells (create_pdf_document summary) =
     map (\<lambda>line. \<lparr>cell_w = 200, cell_h = 10, cell_txt = line, cell_ln = True\<rparr>)
       (py_split 10 summary)"
  by (simp add: create_pdf_document_def pdf_cells_foldl set_font_def add_page_def FPDF_def)


subsection \<open>The example environments\<close>

lemma env_article_simps:
  "article_download_parse env_article = (\<lambda>_. Inr (lit ''Body''))"
  "requests_get env_article = (\<lambda>u. Inr \<lparr>resp_text = lit ''<html>'', resp_content = u\<rparr>)"
  "urljoin env_article = (\<lambda>base ref. lit ''https://example.com/'' @ ref)"
  "image_to_string env_article = (\<lambda>_. Inr ([32] @ lit ''Hi'' @ [10]))"
  "image_open env_article =
     (\<lambda>data. if data = lit ''https://example.com/a.png''
              then Inl (Exception (lit ''cannot identify image file''))
              else Inr (ImageObj (length data)))"
  by (simp_all add: env_article_def env_offline_def)


section \<open>The claims\<close>

text \<open>
  C1. For every string passed to \<open>summarize_with_groq\<close>, one completion request is made
  (no chunks, no retry), whatever the service answers; its messages are the system prompt
  and the user message, and the text in the user message, after the fixed instruction and a
  newline, is the first 7000 characters of the string when it is longer than 7000
  characters and the string itself otherwise.
\<close>

theorem summarize_with_groq_truncates:
  "fst (summarize_with_groq env content) = [ChatCompletionsCreate (groq_request content)] \<and>
   map msg_content (req_messages (groq_request content)) =
     [SYSTEM_PROMPT,
      lit ''Generate notes in bullet points:'' @ [10] @
        (if 7000 < length content then take 7000 content else content)] \<and>
   length (if 7000 < length content then take 7000 content else content) =
     min 7000 (length content)"
  by (auto simp: summarize_with_groq_def groq_request_def io_bind_def io_call_def io_return_def
      split: sum.splits list.splits)

text \<open>
  C2 on the code. The article path never yields empty content, because the header is
  appended to whatever was extracted; so for an article page with no text and no image
  the test \<open>if not content\<close> does not hold and the summarizer is called with the header
  alone. The video path with an empty transcript returns \<open>None\<close> with no request.
\<close>

theorem agent_pipeline_empty_article_is_summarized:
  "snd (extract_article_with_images env url) \<noteq> Inr [] \<and>
   snd (extract_article_with_images env_empty_article (lit ''https://example.com/empty'')) =
     Inr images_header \<and>
   agent_pipeline env_empty_article (lit ''https://example.com/empty'') =
     ([ArticleDownloadParse (lit ''https://example.com/empty''),
       RequestsGet (lit ''https://example.com/empty''),
       ChatCompletionsCreate (groq_request images_header)],
      Inr (Some (lit ''- notes''))) \<and>
   agent_pipeline env_video_silent (lit ''https://youtu.be/dQw4w9WgXcQ'') =
     ([TranscriptList (lit ''dQw4w9WgXcQ''), FindManuallyCreated [lit ''en'', lit ''hi''],
       FindGenerated [lit ''en'', lit ''hi''], TranscriptFetch (TranscriptObj 1)],
      Inr None)"
proof (intro conjI)
  let ?u = "lit ''https://example.com/empty''"
  let ?v = "lit ''https://youtu.be/dQw4w9WgXcQ''"
  show "snd (extract_article_with_images env url) \<noteq> Inr []"
    by (auto simp: extract_article_with_images_def snd_io_bind snd_io_return images_header_def
        split: sum.splits)
  have r: "route_input ?u = lit ''article''"
    by (simp add: route_input_def lit_def)
  have n: "lit ''article'' \<noteq> lit ''youtube''" "images_header \<noteq> []"
    by (simp_all add: lit_def images_header_def)
  have e: "extract_article_with_images env_empty_article ?u =
      ([ArticleDownloadParse ?u, RequestsGet ?u], Inr images_header)"
    by (simp add: extract_article_with_images_def extract_article_text_def
        extract_image_urls_def env_empty_article_def env_article_def env_offline_def
        io_bind_def io_call_def io_return_def)
  then show "snd (extract_article_with_images env_empty_article ?u) = Inr images_header"
    by simp
  have s: "summarize_with_groq env_empty_article images_header =
      ([ChatCompletionsCreate (groq_request images_header)], Inr (lit ''- notes''))"
    by (simp add: summarize_with_groq_def env_empty_article_def env_article_def env_offline_def
        io_bind_def io_call_def io_return_def)
  show "agent_pipeline env_empty_article ?u =
     ([ArticleDownloadParse ?u, RequestsGet ?u,
       ChatCompletionsCreate (groq_request images_header)],
      Inr (Some (lit ''- notes'')))"
    by (simp add: agent_pipeline_def r n e s io_bind_def io_return_def)
  have rv: "route_input ?v = lit ''youtube''"
    by (simp add: route_input_def lit_def)
  have v: "get_video_id ?v = Some (lit ''dQw4w9WgXcQ'')"
    by code_simp
  have nv: "lit ''dQw4w9WgXcQ'' \<noteq> []"
    by (simp add: lit_def)
  have t: "extract_youtube_transcript env_video_silent ?v =
     ([TranscriptList (lit ''dQw4w9WgXcQ''), FindManuallyCreated [lit ''en'', lit ''hi''],
       FindGenerated [lit ''en'', lit ''hi''], TranscriptFetch (TranscriptObj 1)],
      Inr (Some []))"
    by (simp add: extract_youtube_transcript_def transcript_body_def v nv env_video_silent_def
        env_video_def env_offline_def io_try_def io_bind_def io_call_def io_return_def)
  show "agent_pipeline env_video_silent ?v =
     ([TranscriptList (lit ''dQw4w9WgXcQ''), FindManuallyCreated [lit ''en'', lit ''hi''],
       FindGenerated [lit ''en'', lit ''hi''], TranscriptFetch (TranscriptObj 1)],
      Inr None)"
    by (simp add: agent_pipeline_def rv t io_bind_def io_return_def)
qed

text \<open>
  C3, as the code has it. \<open>extract_youtube_transcript\<close> always returns. With an
  identifier and a transcript list, the first lookup is that of a manually created
  transcript in \<open>[en, hi]\<close>, and when it fails the next one is that of a generated
  transcript in the same languages. When the listing itself fails, nothing is looked up:
  the error is shown and \<open>None\<close> returned. Whatever exception leaves the body of the
  \<open>try\<close> is shown by \<open>st.error\<close> and \<open>None\<close> is returned; a URL with no identifier
  gives \<open>None\<close> with no call and no message.
\<close>

theorem extract_youtube_transcript_never_raises:
  "(\<exists>r. snd (extract_youtube_transcript env url) = Inr r) \<and>
   (get_video_id url = Some video_id \<and> yt_list env video_id = Inr tlist \<longrightarrow>
      take 2 (fst (extract_youtube_transcript env url)) =
        [TranscriptList video_id, FindManuallyCreated [lit ''en'', lit ''hi'']]) \<and>
   (get_video_id url = Some video_id \<and> yt_list env video_id = Inr tlist \<and>
    find_manually_created_transcript env tlist [lit ''en'', lit ''hi''] = Inl e \<longrightarrow>
      take 3 (fst (extract_youtube_transcript env url)) =
        [TranscriptList video_id, FindManuallyCreated [lit ''en'', lit ''hi''],
         FindGenerated [lit ''en'', lit ''hi'']]) \<and>
   (get_video_id url = Some video_id \<and> yt_list env video_id = Inl e \<longrightarrow>
      extract_youtube_transcript env url =
        ([TranscriptList video_id, StError transcript_error_prefix e], Inr None)) \<and>
   (snd (transcript_body env url) = Inl e \<longrightarrow>
      extract_youtube_transcript env url =
        (fst (transcript_body env url) @ [StError transcript_error_prefix e], Inr None)) \<and>
   (get_video_id url = None \<longrightarrow> extract_youtube_transcript env url = ([], Inr None))"
proof (intro conjI impI)
  show "\<exists>r. snd (extract_youtube_transcript env url) = Inr r"
    by (simp add: extract_youtube_transcript_def snd_io_try snd_io_bind snd_io_call snd_io_return
        split: sum.splits)
  show "take 2 (fst (extract_youtube_transcript env url)) =
        [TranscriptList video_id, FindManuallyCreated [lit ''en'', lit ''hi'']]"
    if "get_video_id url = Some video_id \<and> yt_list env video_id = Inr tlist"
    using that get_video_id_length [of url video_id]
    by (auto simp: extract_youtube_transcript_def transcript_body_def io_try_def io_bind_def
        io_call_def io_return_def split: sum.splits prod.splits)
  show "take 3 (fst (extract_youtube_transcript env url)) =
        [TranscriptList video_id, FindManuallyCreated [lit ''en'', lit ''hi''],
         FindGenerated [lit ''en'', lit ''hi'']]"
    if "get_video_id url = Some video_id \<and> yt_list env video_id = Inr tlist \<and>
        find_manually_created_transcript env tlist [lit ''en'', lit ''hi''] = Inl e"
    using that get_video_id_length [of url video_id]
    by (auto simp: extract_youtube_transcript_def transcript_body_def io_try_def io_bind_def
        io_call_def io_return_def split: sum.splits prod.splits)
  show "extract_youtube_transcript env url =
        ([TranscriptList video_id, StError transcript_error_prefix e], Inr None)"
    if "get_video_id url = Some video_id \<and> yt_list env video_id = Inl e"
    using that get_video_id_length [of url video_id]
    by (auto simp: extract_youtube_transcript_def transcript_body_def io_try_def io_bind_def
        io_call_def io_return_def)
  show "extract_youtube_transcript env url =
        (fst (transcript_body env url) @ [StError transcript_error_prefix e], Inr None)"
    if "snd (transcript_body env url) = Inl e"
    using that
    by (cases "transcript_body env url")
      (simp add: extract_youtube_transcript_def io_try_def io_bind_def io_call_def io_return_def)
  show "extract_youtube_transcript env url = ([], Inr None)" if "get_video_id url = None"
    using that
    by (simp add: extract_youtube_transcript_def transcript_body_def io_try_def io_return_def)
qed

text \<open>
  The video of \<open>env_video\<close> has no manually created transcript, so the generated one is
  looked up; offline, the listing fails and the error is shown; when the listing answers
  and both lookups fail, the exception of the second is shown; a URL with no identifier
  gives \<open>None\<close> at once.
\<close>

theorem extract_youtube_transcript_never_raises_witness:
  "get_video_id (lit ''https://youtu.be/dQw4w9WgXcQ'') = Some (lit ''dQw4w9WgXcQ'') \<and>
   take 2 (fst (extract_youtube_transcript env_video (lit ''https://youtu.be/dQw4w9WgXcQ''))) =
     [TranscriptList (lit ''dQw4w9WgXcQ''), FindManuallyCreated [lit ''en'', lit ''hi'']] \<and>
   take 3 (fst (extract_youtube_transcript env_video (lit ''https://youtu.be/dQw4w9WgXcQ''))) =
     [TranscriptList (lit ''dQw4w9WgXcQ''), FindManuallyCreated [lit ''en'', lit ''hi''],
      FindGenerated [lit ''en'', lit ''hi'']] \<and>
   extract_youtube_transcript env_offline (lit ''https://youtu.be/dQw4w9WgXcQ'') =
     ([TranscriptList (lit ''dQw4w9WgXcQ''),
       StError transcript_error_prefix (Exception (lit ''offline''))], Inr None) \<and>
   extract_youtube_transcript (env_offline\<lparr>yt_list := (\<lambda>_. Inr (TranscriptListObj 0))\<rparr>)
       (lit ''https://youtu.be/dQw4w9WgXcQ'') =
     ([TranscriptList (lit ''dQw4w9WgXcQ''), FindManuallyCreated [lit ''en'', lit ''hi''],
       FindGenerated [lit ''en'', lit ''hi''],
       StError transcript_error_prefix (Exception (lit ''offline''))], Inr None) \<and>
   get_video_id (lit ''https://youtu.be/'') = None \<and>
   extract_youtube_transcript env_video (lit ''https://youtu.be/'') = ([], Inr None)"
proof -
  let ?u = "lit ''https://youtu.be/dQw4w9WgXcQ''"
  let ?v = "lit ''dQw4w9WgXcQ''"
  let ?env = "env_offline\<lparr>yt_list := (\<lambda>_. Inr (TranscriptListObj 0))\<rparr>"
  have v: "get_video_id ?u = Some ?v"
    by code_simp
  have nv: "?v \<noteq> []"
    by (simp add: lit_def)
  have l: "yt_list env_video ?v = Inr (TranscriptListObj 0)"
    by (simp add: env_video_def env_offline_def)
  have m: "find_manually_created_transcript env_video (TranscriptListObj 0)
      [lit ''en'', lit ''hi''] = Inl (Exception (lit ''NoTranscriptFound''))"
    by (simp add: env_video_def env_offline_def)
  have f: "yt_list env_offline ?v = Inl (Exception (lit ''offline''))"
    by (simp add: env_offline_def)
  have b: "transcript_body ?env ?u =
      ([TranscriptList ?v, FindManuallyCreated [lit ''en'', lit ''hi''],
        FindGenerated [lit ''en'', lit ''hi'']], Inl (Exception (lit ''offline'')))"
    by (simp add: transcript_body_def v nv env_offline_def io_try_def io_bind_def io_call_def)
  have n: "get_video_id (lit ''https://youtu.be/'') = None"
    by code_simp
  note t1 = extract_youtube_transcript_never_raises
      [of env_video ?u ?v "TranscriptListObj 0" "Exception (lit ''NoTranscriptFound'')"]
  note t2 = extract_youtube_transcript_never_raises
      [of env_offline ?u ?v "TranscriptListObj 0" "Exception (lit ''offline'')"]
  note t3 = extract_youtube_transcript_never_raises
      [of ?env ?u ?v "TranscriptListObj 0" "Exception (lit ''offline'')"]
  note t4 = extract_youtube_transcript_never_raises
      [of env_video "lit ''https://youtu.be/''" ?v "TranscriptListObj 0" "Exception (lit ''offline'')"]
  from t1 v l m
  have 1: "take 2 (fst (extract_youtube_transcript env_video ?u)) =
     [TranscriptList ?v, FindManuallyCreated [lit ''en'', lit ''hi'']]"
    and 2: "take 3 (fst (extract_youtube_transcript env_video ?u)) =
     [TranscriptList ?v, FindManuallyCreated [lit ''en'', lit ''hi''],
      FindGenerated [lit ''en'', lit ''hi'']]"
    by blast+
  from t2 v f
  have 3: "extract_youtube_transcript env_offline ?u =
     ([TranscriptList ?v, StError transcript_error_prefix (Exception (lit ''offline''))], Inr None)"
    by blast
  from t3 b
  have 4: "extract_youtube_transcript ?env ?u =
     ([TranscriptList ?v, FindManuallyCreated [lit ''en'', lit ''hi''],
       FindGenerated [lit ''en'', lit ''hi''],
       StError transcript_error_prefix (Exception (lit ''offline''))], Inr None)"
    by simp
  from t4 n
  have 5: "extract_youtube_transcript env_video (lit ''https://youtu.be/'') = ([], Inr None)"
    by blast
  from v 1 2 3 4 n 5 show ?thesis by blast
qed

text \<open>
  C3 as stated fails when the listing fails: no generated transcript is looked up.
\<close>

theorem extract_youtube_transcript_listing_fails:
  "get_video_id (lit ''https://youtu.be/dQw4w9WgXcQ'') = Some (lit ''dQw4w9WgXcQ'') \<and>
   yt_list env_offline (lit ''dQw4w9WgXcQ'') = Inl (Exception (lit ''offline'')) \<and>
   fst (extract_youtube_transcript env_offline (lit ''https://youtu.be/dQw4w9WgXcQ'')) =
     [TranscriptList (lit ''dQw4w9WgXcQ''),
      StError transcript_error_prefix (Exception (lit ''offline''))] \<and>
   FindGenerated [lit ''en'', lit ''hi''] \<notin>
     set (fst (extract_youtube_transcript env_offline (lit ''https://youtu.be/dQw4w9WgXcQ'')))"
proof -
  have v: "get_video_id (lit ''https://youtu.be/dQw4w9WgXcQ'') = Some (lit ''dQw4w9WgXcQ'')"
    by code_simp
  have n: "lit ''dQw4w9WgXcQ'' \<noteq> []"
    by (simp add: lit_def)
  have f: "yt_list env_offline (lit ''dQw4w9WgXcQ'') = Inl (Exception (lit ''offline''))"
    by (simp add: env_offline_def)
  have "fst (extract_youtube_transcript env_offline (lit ''https://youtu.be/dQw4w9WgXcQ'')) =
     [TranscriptList (lit ''dQw4w9WgXcQ''),
      StError transcript_error_prefix (Exception (lit ''offline''))]"
    by (simp add: extract_youtube_transcript_def transcript_body_def v n f io_try_def io_bind_def
        io_call_def io_return_def)
  with v f show ?thesis by simp
qed

text \<open>
  C4, as the code has it. \<open>get_video_id\<close> returns an identifier exactly when the URL has
  a marker (\<open>v=\<close> or \<open>/\<close>) followed by eleven characters of the class, and then it returns
  the eleven characters after the leftmost such marker; it returns \<open>None\<close> exactly when
  the URL has no such place.
\<close>

theorem get_video_id_leftmost:
  "(get_video_id url = Some ident \<longleftrightarrow>
      (\<exists>i. id_at url i ident \<and> (\<forall>j<i. \<forall>x. \<not> id_at url j x))) \<and>
   (get_video_id url = None \<longleftrightarrow> (\<forall>i x. \<not> id_at url i x))"
  by (simp add: get_video_id_def re_search_Some re_search_None)

text \<open>The short link of a video: the leftmost place is the only one.\<close>

theorem get_video_id_leftmost_witness:
  "get_video_id (lit ''https://youtu.be/dQw4w9WgXcQ'') = Some (lit ''dQw4w9WgXcQ'') \<and>
   (\<exists>i. id_at (lit ''https://youtu.be/dQw4w9WgXcQ'') i (lit ''dQw4w9WgXcQ'') \<and>
        (\<forall>j<i. \<forall>x. \<not> id_at (lit ''https://youtu.be/dQw4w9WgXcQ'') j x))"
proof -
  have e: "get_video_id (lit ''https://youtu.be/dQw4w9WgXcQ'') = Some (lit ''dQw4w9WgXcQ'')"
    by code_simp
  with get_video_id_leftmost [of "lit ''https://youtu.be/dQw4w9WgXcQ''" "lit ''dQw4w9WgXcQ''"]
  show ?thesis by blast
qed

text \<open>
  C4 as stated fails where an earlier place matches: in this attribution link the
  identifier stands after \<open>v=\<close> at position 50, and the function returns the first eleven
  characters of the path segment \<open>attribution_link\<close>.
\<close>

theorem get_video_id_not_every_occurrence:
  "id_at (lit ''https://www.youtube.com/attribution_link?u=/watch?v=dQw4w9WgXcQ'') 50
     (lit ''dQw4w9WgXcQ'') \<and>
   get_video_id (lit ''https://www.youtube.com/attribution_link?u=/watch?v=dQw4w9WgXcQ'') =
     Some (lit ''attribution'') \<and>
   lit ''attribution'' \<noteq> lit ''dQw4w9WgXcQ''"
  by code_simp

text \<open>
  C5. \<open>route_input\<close> is a function of the URL alone: the result is \<open>youtube\<close> when
  \<open>youtube.com\<close> or \<open>youtu.be\<close> occurs in the URL as a substring and \<open>article\<close>
  otherwise; the comparison is by character, so the upper-case host is an article.
\<close>

theorem route_input_classifies:
  "route_input url =
     (if (\<exists>pre post. url = pre @ lit ''youtube.com'' @ post) \<or>
         (\<exists>pre post. url = pre @ lit ''youtu.be'' @ post)
      then lit ''youtube'' else lit ''article'') \<and>
   route_input (lit ''https://WWW.YOUTUBE.COM/watch?v=dQw4w9WgXcQ'') = lit ''article''"
proof
  show "route_input url =
     (if (\<exists>pre post. url = pre @ lit ''youtube.com'' @ post) \<or>
         (\<exists>pre post. url = pre @ lit ''youtu.be'' @ post)
      then lit ''youtube'' else lit ''article'')"
    by (simp add: route_input_def py_in_sublist sublist_def)
  show "route_input (lit ''https://WWW.YOUTUBE.COM/watch?v=dQw4w9WgXcQ'') = lit ''article''"
    by (simp add: route_input_def lit_def)
qed



text \<open>
  C7. \<open>ocr_from_image_url\<close> always returns a string: the recognised text stripped of the
  whitespace around it when download, decoding and recognition succeed, the empty string
  when any of them fails. Stripping removes whitespace only, leaves none at either end,
  and gives the empty string for a text of whitespace alone, which is what a failure
  gives.
\<close>

theorem ocr_from_image_url_never_raises:
  "(\<exists>t. snd (ocr_from_image_url env img_url) = Inr t) \<and>
   (requests_get env img_url = Inr resp \<and> image_open env (resp_content resp) = Inr img \<and>
    image_to_string env img = Inr s \<longrightarrow>
      snd (ocr_from_image_url env img_url) = Inr (py_strip s)) \<and>
   (requests_get env img_url = Inl e \<or>
    requests_get env img_url = Inr resp \<and> image_open env (resp_content resp) = Inl e \<or>
    requests_get env img_url = Inr resp \<and> image_open env (resp_content resp) = Inr img \<and>
      image_to_string env img = Inl e \<longrightarrow>
      snd (ocr_from_image_url env img_url) = Inr []) \<and>
   (\<exists>a b. s = a @ py_strip s @ b \<and> list_all py_isspace a \<and> list_all py_isspace b) \<and>
   (py_strip s = [] \<or>
      \<not> py_isspace (hd (py_strip s)) \<and> \<not> py_isspace (last (py_strip s))) \<and>
   (list_all py_isspace s \<longrightarrow> py_strip s = [])"
proof (intro conjI impI)
  show "\<exists>t. snd (ocr_from_image_url env img_url) = Inr t"
    by (simp add: snd_ocr)
  show "snd (ocr_from_image_url env img_url) = Inr (py_strip s)"
    if "requests_get env img_url = Inr resp \<and> image_open env (resp_content resp) = Inr img \<and>
        image_to_string env img = Inr s"
    using that by (simp add: snd_ocr)
  show "snd (ocr_from_image_url env img_url) = Inr []"
    if "requests_get env img_url = Inl e \<or>
        requests_get env img_url = Inr resp \<and> image_open env (resp_content resp) = Inl e \<or>
        requests_get env img_url = Inr resp \<and> image_open env (resp_content resp) = Inr img \<and>
          image_to_string env img = Inl e"
    using that by (auto simp: snd_ocr)
  show "\<exists>a b. s = a @ py_strip s @ b \<and> list_all py_isspace a \<and> list_all py_isspace b"
    by (rule py_strip_decomp)
  show "py_strip s = [] \<or>
      \<not> py_isspace (hd (py_strip s)) \<and> \<not> py_isspace (last (py_strip s))"
    using py_strip_ends [of s] by blast
  show "py_strip s = []" if "list_all py_isspace s"
    using that by (rule py_strip_blank)
qed

text \<open>
  In \<open>env_article\<close> the image \<open>c.png\<close> is read and its text stripped, and \<open>a.png\<close>
  cannot be decoded; a blank image gives the same empty string.
\<close>

theorem ocr_from_image_url_never_raises_witness:
  "snd (ocr_from_image_url env_article (lit ''https://example.com/c.png'')) = Inr (lit ''Hi'') \<and>
   snd (ocr_from_image_url env_article (lit ''https://example.com/a.png'')) = Inr [] \<and>
   list_all py_isspace [32, 10] \<and> py_strip [32, 10] = []"
proof -
  let ?c = "lit ''https://example.com/c.png''"
  let ?a = "lit ''https://example.com/a.png''"
  have c: "requests_get env_article ?c = Inr \<lparr>resp_text = lit ''<html>'', resp_content = ?c\<rparr> \<and>
      image_open env_article (resp_content \<lparr>resp_text = lit ''<html>'', resp_content = ?c\<rparr>) =
        Inr (ImageObj 25) \<and>
      image_to_string env_article (ImageObj 25) = Inr ([32] @ lit ''Hi'' @ [10])"
    by (simp add: env_article_simps) (simp add: lit_def)
  have s: "py_strip ([32] @ lit ''Hi'' @ [10]) = lit ''Hi''"
    by (simp add: py_strip_def py_isspace_def lit_def)
  have a: "requests_get env_article ?a = Inr \<lparr>resp_text = lit ''<html>'', resp_content = ?a\<rparr> \<and>
      image_open env_article (resp_content \<lparr>resp_text = lit ''<html>'', resp_content = ?a\<rparr>) =
        Inl (Exception (lit ''cannot identify image file''))"
    by (simp add: env_article_simps)
  have b: "list_all py_isspace [32, 10]"
    by (simp add: py_isspace_def)
  from ocr_from_image_url_never_raises
      [of env_article ?c "\<lparr>resp_text = lit ''<html>'', resp_content = ?c\<rparr>" "ImageObj 25"
          "[32] @ lit ''Hi'' @ [10]"] c s
  have 1: "snd (ocr_from_image_url env_article ?c) = Inr (lit ''Hi'')"
    by simp
  from ocr_from_image_url_never_raises
      [of env_article ?a "\<lparr>resp_text = lit ''<html>'', resp_content = ?a\<rparr>" "ImageObj 0"
          "[32, 10]" "Exception (lit ''cannot identify image file'')"] a b
  have 2: "snd (ocr_from_image_url env_article ?a) = Inr [] \<and> py_strip [32, 10] = []"
    by blast
  from 1 2 b show ?thesis by blast
qed






text \<open>
  C10. The document of \<open>create_pdf\<close> has as many cells as the summary has newlines, plus
  one, for every summary and so for those of latin-1 characters: never none, one empty
  cell for the empty summary, and an empty last cell for a summary that ends in a newline.
\<close>

theorem create_pdf_cell_count:
  "length (pdf_cells (create_pdf_document summary)) = count_list summary 10 + 1 \<and>
   pdf_cells (create_pdf_document summary) \<noteq> [] \<and>
   map cell_txt (pdf_cells (create_pdf_document [])) = [[]] \<and>
   cell_txt (last (pdf_cells (create_pdf_document (summary @ [10])))) = []"
  by (simp add: pdf_cells_create length_py_split py_split_snoc_sep py_split_not_Nil last_map)

end
